theory Spec2Isabelle
  imports Complex_Main "HOL-Library.Sublist" "HOL-Library.Char_ord" "HOL-Library.List_Lexorder"
    "HOL-Library.Multiset"
begin

section \<open>Trackpoints and time\<close>

text \<open>
  A Python \<^verbatim>\<open>datetime\<close> with a time zone is an absolute instant with microsecond
  resolution: it is modelled as an \<open>int\<close>, the number of microseconds since the epoch.
  The difference of two instants is a \<^verbatim>\<open>timedelta\<close>, again a whole number of
  microseconds, and \<^verbatim>\<open>total_seconds()\<close> divides it by \<open>10^6\<close>.
  Python floats are modelled as \<open>real\<close>: rounding of the float arithmetic is outside
  this model.
\<close>

type_synonym datetime = int
type_synonym timedelta = int

record GPSTrackPoint =
  timestamp :: datetime
  latitude :: real
  longitude :: real
  elevation :: "real option"

definition total_seconds :: "timedelta \<Rightarrow> real" where
  "total_seconds d = real_of_int d / 1000000"

section \<open>GPXParser\<close>

text \<open>
  \<^verbatim>\<open>GPXParser.parse\<close> reads the points of every track and segment in file order and
  then sorts them by timestamp (\<^verbatim>\<open>list.sort\<close> is stable). Reading the file is the work
  of the external library; the model starts from the points in file order.
\<close>

definition parse :: "GPSTrackPoint list \<Rightarrow> GPSTrackPoint list" where
  "parse points = sort_key timestamp points"

text \<open>
  \<^verbatim>\<open>calculate_average_interval\<close>: the loop \<^verbatim>\<open>for i in range(1, len(self.trackpoints))\<close>
  collects the positive deltas.
\<close>

definition intervals_of :: "GPSTrackPoint list \<Rightarrow> real list" where
  "intervals_of trackpoints =
     filter (\<lambda>delta. delta > 0)
       (map (\<lambda>i. total_seconds (timestamp (trackpoints ! i) - timestamp (trackpoints ! (i - 1))))
          [1 ..< length trackpoints])"

definition calculate_average_interval :: "GPSTrackPoint list \<Rightarrow> real" where
  "calculate_average_interval trackpoints =
     (if length trackpoints < 2 then 300
      else let intervals = intervals_of trackpoints in
        if intervals = [] then 300
        else sum_list intervals / real (length intervals))"

text \<open>
  The interval estimator in the words of the specification: the successive time deltas
  between consecutive points, in seconds, with every delta \<open>\<le> 0\<close> discarded.
\<close>

definition successive_deltas :: "GPSTrackPoint list \<Rightarrow> real list" where
  "successive_deltas trackpoints =
     map (\<lambda>(a, b). (real_of_int (timestamp b) - real_of_int (timestamp a)) / 1000000)
       (zip trackpoints (tl trackpoints))"

definition positive_deltas :: "GPSTrackPoint list \<Rightarrow> real list" where
  "positive_deltas trackpoints = filter (\<lambda>d. \<not> d \<le> 0) (successive_deltas trackpoints)"

section \<open>GPSMatcher\<close>

text \<open>
  The scanning loop of \<^verbatim>\<open>find_gps_for_photo\<close>: \<open>before\<close> is overwritten by every point
  with \<open>timestamp \<le> photo_time\<close>, and the loop breaks at the first later point, which
  becomes \<open>after\<close>. The result is the pair \<open>(before, after)\<close> at loop exit.
\<close>

fun scan_trackpoints ::
  "GPSTrackPoint list \<Rightarrow> datetime \<Rightarrow> GPSTrackPoint option
     \<Rightarrow> GPSTrackPoint option \<times> GPSTrackPoint option" where
  "scan_trackpoints [] photo_time before = (before, None)"
| "scan_trackpoints (point # rest) photo_time before =
     (if timestamp point \<le> photo_time then scan_trackpoints rest photo_time (Some point)
      else (before, Some point))"

type_synonym gps_data = "real \<times> real \<times> real option"

definition position_of :: "GPSTrackPoint \<Rightarrow> gps_data" where
  "position_of p = (latitude p, longitude p, elevation p)"

definition interpolate :: "GPSTrackPoint \<Rightarrow> GPSTrackPoint \<Rightarrow> real \<Rightarrow> gps_data" where
  "interpolate before after ratio =
     (latitude before + (latitude after - latitude before) * ratio,
      longitude before + (longitude after - longitude before) * ratio,
      (case elevation before of
         None \<Rightarrow> None
       | Some eb \<Rightarrow>
           (case elevation after of
              None \<Rightarrow> None
            | Some ea \<Rightarrow> Some (eb + (ea - eb) * ratio))))"

definition find_gps_for_photo ::
  "GPSTrackPoint list \<Rightarrow> real \<Rightarrow> bool \<Rightarrow> datetime \<Rightarrow> gps_data option" where
  "find_gps_for_photo trackpoints max_time_diff force_interpolate photo_time =
     (if trackpoints = [] then None
      else
        (case scan_trackpoints trackpoints photo_time None of
           (None, _) \<Rightarrow>
             (let time_diff = total_seconds (timestamp (hd trackpoints) - photo_time) in
              if force_interpolate \<or> time_diff \<le> max_time_diff
              then Some (position_of (hd trackpoints)) else None)
         | (Some before, None) \<Rightarrow>
             (let time_diff = total_seconds (photo_time - timestamp (last trackpoints)) in
              if force_interpolate \<or> time_diff \<le> max_time_diff
              then Some (position_of (last trackpoints)) else None)
         | (Some before, Some after) \<Rightarrow>
             (let time_diff_before = total_seconds (photo_time - timestamp before);
                  time_diff_after = total_seconds (timestamp after - photo_time) in
              if \<not> force_interpolate \<and> min time_diff_before time_diff_after > max_time_diff
              then None
              else
                (let total_time = total_seconds (timestamp after - timestamp before) in
                 if total_time = 0 then Some (position_of before)
                 else Some (interpolate before after (time_diff_before / total_time))))))"

section \<open>Python values, exceptions and paths\<close>

text \<open>
  Exceptions are values of \<open>py_exn\<close>; a computation that can raise returns
  \<open>py_exn + 'a\<close>. The result of \<^verbatim>\<open>json.loads\<close> is a \<open>jval\<close>; Python's \<^verbatim>\<open>None\<close>
  is \<open>JNull\<close>, so an \<^verbatim>\<open>Optional[Dict]\<close> is a \<open>jval\<close> too.
\<close>

datatype py_exn =
  FileNotFoundError | RuntimeError | ValueError | TypeError | KeyError | IndexError
  | AttributeError | OverflowError | OSError

datatype jval =
  JNull | JBool bool | JNum real | JStr string | JArr "jval list" | JObj "(string \<times> jval) list"

fun truthy :: "jval \<Rightarrow> bool" where
  "truthy JNull = False"
| "truthy (JBool b) = b"
| "truthy (JNum x) = (x \<noteq> 0)"
| "truthy (JStr s) = (s \<noteq> [])"
| "truthy (JArr xs) = (xs \<noteq> [])"
| "truthy (JObj kvs) = (kvs \<noteq> [])"

text \<open>\<^verbatim>\<open>x or y\<close> on values.\<close>

definition py_or :: "jval \<Rightarrow> jval \<Rightarrow> jval" where
  "py_or x y = (if truthy x then x else y)"

text \<open>\<^verbatim>\<open>info.get(k)\<close>: only a dict has \<^verbatim>\<open>get\<close>; a missing key gives \<^verbatim>\<open>None\<close>.\<close>

fun dict_get :: "jval \<Rightarrow> string \<Rightarrow> py_exn + jval" where
  "dict_get (JObj kvs) k = Inr (case map_of kvs k of None \<Rightarrow> JNull | Some v \<Rightarrow> v)"
| "dict_get _ k = Inl AttributeError"

text \<open>\<^verbatim>\<open>data[0]\<close>.\<close>

fun subscript0 :: "jval \<Rightarrow> py_exn + jval" where
  "subscript0 (JArr xs) = (case xs of [] \<Rightarrow> Inl IndexError | x # _ \<Rightarrow> Inr x)"
| "subscript0 (JStr s) = (case s of [] \<Rightarrow> Inl IndexError | c # _ \<Rightarrow> Inr (JStr [c]))"
| "subscript0 (JObj kvs) = Inl KeyError"
| "subscript0 _ = Inl TypeError"

text \<open>
  A \<^verbatim>\<open>Path\<close> is the list of its components below the photo directory; its \<^verbatim>\<open>name\<close>
  is the last component and its \<^verbatim>\<open>suffix\<close> the part of the name from the last dot on,
  unless that dot is the first or the last character of the name. \<^verbatim>\<open>str.lower\<close> and
  \<^verbatim>\<open>str.upper\<close> are modelled on the ASCII letters.
\<close>

type_synonym path = "string list"

definition name_of :: "path \<Rightarrow> string" where
  "name_of p = (if p = [] then [] else last p)"

definition path_suffix :: "path \<Rightarrow> string" where
  "path_suffix p =
     (let name = name_of p;
          ext = rev (takeWhile (\<lambda>c. c \<noteq> CHR ''.'') (rev name))
      in if CHR ''.'' \<in> set name \<and> ext \<noteq> [] \<and> length ext + 1 < length name
         then CHR ''.'' # ext else [])"

definition lower_char :: "char \<Rightarrow> char" where
  "lower_char c =
     (case map_of (zip ''ABCDEFGHIJKLMNOPQRSTUVWXYZ'' ''abcdefghijklmnopqrstuvwxyz'') c of
        None \<Rightarrow> c | Some d \<Rightarrow> d)"

definition upper_char :: "char \<Rightarrow> char" where
  "upper_char c =
     (case map_of (zip ''abcdefghijklmnopqrstuvwxyz'' ''ABCDEFGHIJKLMNOPQRSTUVWXYZ'') c of
        None \<Rightarrow> c | Some d \<Rightarrow> d)"

definition lower :: "string \<Rightarrow> string" where
  "lower s = map lower_char s"

definition upper :: "string \<Rightarrow> string" where
  "upper s = map upper_char s"

section \<open>Photo metadata and the external tools\<close>

text \<open>
  The dictionary of \<^verbatim>\<open>piexif.load\<close> maps an IFD name (\<^verbatim>\<open>'Exif'\<close>, \<^verbatim>\<open>'GPS'\<close>, ...) to a
  dictionary from tags to values. The tags the program names (\<^verbatim>\<open>piexif.ExifIFD.*\<close>,
  \<^verbatim>\<open>piexif.GPSIFD.*\<close>) are constructors of \<open>exif_tag\<close>.
\<close>

datatype exif_tag =
  DateTimeOriginal | DateTime
  | GPSLatitudeRef | GPSLatitude | GPSLongitudeRef | GPSLongitude | GPSAltitudeRef | GPSAltitude
  | OtherTag nat

datatype exif_val =
  EBytes string | EStr string | EInt int | ERational "int \<times> int" | ERationals "(int \<times> int) list"

type_synonym ifd = "exif_tag \<rightharpoonup> exif_val"
type_synonym exif_dict = "string \<rightharpoonup> ifd"

fun exif_truthy :: "exif_val option \<Rightarrow> bool" where
  "exif_truthy None = False"
| "exif_truthy (Some (EBytes s)) = (s \<noteq> [])"
| "exif_truthy (Some (EStr s)) = (s \<noteq> [])"
| "exif_truthy (Some (EInt i)) = (i \<noteq> 0)"
| "exif_truthy (Some (ERational r)) = True"
| "exif_truthy (Some (ERationals rs)) = (rs \<noteq> [])"

text \<open>\<^verbatim>\<open>exif_dict.get(k, {})\<close>.\<close>

definition ifd_get :: "exif_dict \<Rightarrow> string \<Rightarrow> ifd" where
  "ifd_get exif_dict k = (case exif_dict k of None \<Rightarrow> Map.empty | Some d \<Rightarrow> d)"

text \<open>The arguments of the \<^verbatim>\<open>exiftool\<close> command line that writes the GPS tags.\<close>

record exiftool_cmd =
  arg_GPSLatitude :: real
  arg_GPSLatitudeRef :: string
  arg_GPSLongitude :: real
  arg_GPSLongitudeRef :: string
  arg_GPSAltitude :: "(real \<times> string) option"
  arg_file :: path

text \<open>
  The libraries and the external tool are parameters of the model. \<open>'w\<close> is the state of
  the file system.
  \<^item> \<open>piexif_load\<close>: \<^verbatim>\<open>piexif.load(path)\<close>, which returns the dictionary or raises;
  \<^item> \<open>piexif_insert\<close>: \<^verbatim>\<open>piexif.dump\<close> followed by \<^verbatim>\<open>piexif.insert\<close>, which raise
    (\<open>Some e\<close>) or not, and leave a file system;
  \<^item> \<open>exiftool_json\<close>: \<^verbatim>\<open>subprocess.run(["exiftool", "-j", "-G", "-n", path])\<close>, which
    raises or gives a return code, together with \<^verbatim>\<open>json.loads\<close> of its output
    (\<open>None\<close> when that raises \<^verbatim>\<open>JSONDecodeError\<close>);
  \<^item> \<open>exiftool_write\<close>: \<^verbatim>\<open>subprocess.run\<close> of the writing command, which raises or gives
    a return code, and leaves a file system;
  \<^item> \<open>strptime\<close>: \<^verbatim>\<open>datetime.strptime(s, "%Y:%m:%d %H:%M:%S")\<close> read as UTC
    (\<open>None\<close> when it raises \<^verbatim>\<open>ValueError\<close>);
  \<^item> \<open>py_str\<close>: \<^verbatim>\<open>str(value)\<close>.
\<close>

record 'w env =
  piexif_load :: "'w \<Rightarrow> path \<Rightarrow> py_exn + exif_dict"
  piexif_insert :: "'w \<Rightarrow> exif_dict \<Rightarrow> path \<Rightarrow> py_exn option \<times> 'w"
  exiftool_json :: "'w \<Rightarrow> path \<Rightarrow> py_exn + (int \<times> jval option)"
  exiftool_write :: "'w \<Rightarrow> exiftool_cmd \<Rightarrow> (py_exn + int) \<times> 'w"
  strptime :: "string \<Rightarrow> datetime option"
  py_str :: "jval \<Rightarrow> string"

section \<open>PhotoProcessor\<close>

text \<open>
  The object's fields; \<open>raw_info\<close> and \<open>jpeg_exif_dict\<close> are the two lazy caches
  \<^verbatim>\<open>_raw_info\<close> and \<^verbatim>\<open>_jpeg_exif_dict\<close>. Every method takes the object and returns it
  updated.
\<close>

record PhotoProcessor =
  photo_path :: path
  is_raw :: bool
  time_offset_seconds :: real
  raw_info :: jval
  jpeg_exif_dict :: "exif_dict option"

definition new_PhotoProcessor :: "path \<Rightarrow> real \<Rightarrow> PhotoProcessor" where
  "new_PhotoProcessor p offset =
     \<lparr>photo_path = p,
      is_raw = (lower (path_suffix p) \<notin> set [''.jpg'', ''.jpeg'']),
      time_offset_seconds = offset,
      raw_info = JNull,
      jpeg_exif_dict = None\<rparr>"

text \<open>
  \<^verbatim>\<open>_run_exiftool_json\<close> catches \<^verbatim>\<open>FileNotFoundError\<close> of the subprocess call and
  \<^verbatim>\<open>JSONDecodeError\<close> of the parse; everything else propagates.
\<close>

definition run_exiftool_json :: "'w env \<Rightarrow> 'w \<Rightarrow> PhotoProcessor \<Rightarrow> py_exn + jval" where
  "run_exiftool_json E w self =
     (case exiftool_json E w (photo_path self) of
        Inl e \<Rightarrow> if e = FileNotFoundError then Inr JNull else Inl e
      | Inr (returncode, out) \<Rightarrow>
          if returncode \<noteq> 0 then Inr JNull
          else
            (case out of
               None \<Rightarrow> Inr JNull
             | Some data \<Rightarrow> if \<not> truthy data then Inr JNull else subscript0 data))"

definition get_raw_info ::
  "'w env \<Rightarrow> 'w \<Rightarrow> PhotoProcessor \<Rightarrow> (py_exn + jval) \<times> PhotoProcessor" where
  "get_raw_info E w self =
     (if raw_info self = JNull then
        (case run_exiftool_json E w self of
           Inl e \<Rightarrow> (Inl e, self)
         | Inr info \<Rightarrow> (Inr info, self\<lparr>raw_info := info\<rparr>))
      else (Inr (raw_info self), self))"

definition get_jpeg_exif_dict ::
  "'w env \<Rightarrow> 'w \<Rightarrow> PhotoProcessor \<Rightarrow> (py_exn + exif_dict) \<times> PhotoProcessor" where
  "get_jpeg_exif_dict E w self =
     (case jpeg_exif_dict self of
        None \<Rightarrow>
          (case piexif_load E w (photo_path self) of
             Inl e \<Rightarrow> (Inl e, self)
           | Inr d \<Rightarrow> (Inr d, self\<lparr>jpeg_exif_dict := Some d\<rparr>))
      | Some d \<Rightarrow> (Inr d, self))"

text \<open>\<^verbatim>\<open>has_gps_data\<close>: every exception is caught and gives \<open>False\<close>.\<close>

definition has_gps_data :: "'w env \<Rightarrow> 'w \<Rightarrow> PhotoProcessor \<Rightarrow> bool \<times> PhotoProcessor" where
  "has_gps_data E w self =
     (if is_raw self then
        (case get_raw_info E w self of
           (Inl e, self') \<Rightarrow> (False, self')
         | (Inr info, self') \<Rightarrow>
             if info = JNull then (False, self')
             else
               (case dict_get info ''EXIF:GPSLatitude'' of
                  Inl e \<Rightarrow> (False, self')
                | Inr lat1 \<Rightarrow>
                    (case dict_get info ''Composite:GPSLatitude'' of
                       Inl e \<Rightarrow> (False, self')
                     | Inr lat2 \<Rightarrow>
                         (case dict_get info ''EXIF:GPSLongitude'' of
                            Inl e \<Rightarrow> (False, self')
                          | Inr lon1 \<Rightarrow>
                              (case dict_get info ''Composite:GPSLongitude'' of
                                 Inl e \<Rightarrow> (False, self')
                               | Inr lon2 \<Rightarrow>
                                   (py_or lat1 lat2 \<noteq> JNull \<and> py_or lon1 lon2 \<noteq> JNull,
                                    self'))))))
      else
        (case get_jpeg_exif_dict E w self of
           (Inl e, self') \<Rightarrow> (False, self')
         | (Inr exif_dict, self') \<Rightarrow> (ifd_get exif_dict ''GPS'' GPSLatitude \<noteq> None, self')))"

section \<open>Reading the capture time\<close>

text \<open>
  \<^verbatim>\<open>timedelta(seconds=x)\<close> rounds \<open>x\<close> to whole microseconds, halves to even.
  Subtracting it from a \<^verbatim>\<open>datetime\<close> raises \<^verbatim>\<open>OverflowError\<close> outside the years
  1 to 9999.
\<close>

definition round_half_even :: "real \<Rightarrow> int" where
  "round_half_even x =
     (let f = \<lfloor>x\<rfloor>; d = x - real_of_int f
      in if d < 1 / 2 then f else if d > 1 / 2 then f + 1 else if even f then f else f + 1)"

definition timedelta_of_seconds :: "real \<Rightarrow> timedelta" where
  "timedelta_of_seconds s = round_half_even (s * 1000000)"

definition datetime_min :: datetime where
  "datetime_min = - 62135596800000000"

definition datetime_max :: datetime where
  "datetime_max = 253402300799999999"

definition sub_timedelta :: "datetime \<Rightarrow> timedelta \<Rightarrow> py_exn + datetime" where
  "sub_timedelta dt td =
     (let r = dt - td in
      if datetime_min \<le> r \<and> r \<le> datetime_max then Inr r else Inl OverflowError)"

text \<open>
  The conversion of the camera's local time to UTC:
  \<^verbatim>\<open>if self.time_offset_seconds: dt = dt - timedelta(seconds=self.time_offset_seconds)\<close>.
\<close>

definition to_utc :: "PhotoProcessor \<Rightarrow> datetime \<Rightarrow> py_exn + datetime" where
  "to_utc self dt =
     (if time_offset_seconds self \<noteq> 0
      then sub_timedelta dt (timedelta_of_seconds (time_offset_seconds self))
      else Inr dt)"

definition candidates :: "string list" where
  "candidates =
     [''EXIF:DateTimeOriginal'', ''EXIF:CreateDate'', ''QuickTime:CreateDate'',
      ''Composite:SubSecDateTimeOriginal'']"

text \<open>
  The loop over the candidate tags of the RAW branch: a tag with a falsy value or a
  value that does not parse is skipped; the text before the first dot is parsed.
\<close>

fun scan_candidates ::
  "'w env \<Rightarrow> PhotoProcessor \<Rightarrow> jval \<Rightarrow> string list \<Rightarrow> py_exn + datetime option" where
  "scan_candidates E self info [] = Inr None"
| "scan_candidates E self info (tag # tags) =
     (case dict_get info tag of
        Inl e \<Rightarrow> Inl e
      | Inr v \<Rightarrow>
          if \<not> truthy v then scan_candidates E self info tags
          else
            (let value_str = takeWhile (\<lambda>c. c \<noteq> CHR ''.'') (py_str E v) in
             case strptime E value_str of
               None \<Rightarrow> scan_candidates E self info tags
             | Some dt \<Rightarrow>
                 (case to_utc self dt of
                    Inl e \<Rightarrow> Inl e
                  | Inr dt' \<Rightarrow> Inr (Some dt'))))"

text \<open>
  \<^verbatim>\<open>get_photo_timestamp\<close>: every exception is caught and gives \<open>None\<close>. In the JPEG
  branch only a \<^verbatim>\<open>bytes\<close> value has \<^verbatim>\<open>decode\<close>.
\<close>

definition get_photo_timestamp ::
  "'w env \<Rightarrow> 'w \<Rightarrow> PhotoProcessor \<Rightarrow> datetime option \<times> PhotoProcessor" where
  "get_photo_timestamp E w self =
     (if is_raw self then
        (case get_raw_info E w self of
           (Inl e, self') \<Rightarrow> (None, self')
         | (Inr info, self') \<Rightarrow>
             if info = JNull then (None, self')
             else
               (case scan_candidates E self' info candidates of
                  Inl e \<Rightarrow> (None, self')
                | Inr r \<Rightarrow> (r, self')))
      else
        (case get_jpeg_exif_dict E w self of
           (Inl e, self') \<Rightarrow> (None, self')
         | (Inr exif_dict, self') \<Rightarrow>
             (let exif_ifd = ifd_get exif_dict ''Exif'';
                  timestamp_bytes =
                    (if exif_truthy (exif_ifd DateTimeOriginal) then exif_ifd DateTimeOriginal
                     else exif_ifd DateTime)
              in if exif_truthy timestamp_bytes then
                   (case timestamp_bytes of
                      Some (EBytes timestamp_str) \<Rightarrow>
                        (case strptime E timestamp_str of
                           None \<Rightarrow> (None, self')
                         | Some dt \<Rightarrow>
                             (case to_utc self' dt of
                                Inl e \<Rightarrow> (None, self')
                              | Inr dt' \<Rightarrow> (Some dt', self')))
                    | _ \<Rightarrow> (None, self'))
                 else (None, self'))))"

section \<open>Writing the position\<close>

text \<open>\<^verbatim>\<open>int(x)\<close> truncates towards zero.\<close>

definition py_int :: "real \<Rightarrow> int" where
  "py_int x = (if x \<ge> 0 then \<lfloor>x\<rfloor> else \<lceil>x\<rceil>)"

definition decimal_to_dms :: "real \<Rightarrow> int \<times> int \<times> real" where
  "decimal_to_dms decimal =
     (let degrees = py_int decimal;
          minutes_decimal = (decimal - real_of_int degrees) * 60;
          minutes = py_int minutes_decimal;
          seconds = (minutes_decimal - real_of_int minutes) * 60
      in (degrees, minutes, seconds))"

definition gps_ifd_of :: "real \<Rightarrow> real \<Rightarrow> real option \<Rightarrow> ifd" where
  "gps_ifd_of lat lon ele =
     (case decimal_to_dms \<bar>lat\<bar> of (lat_deg, lat_min, lat_sec) \<Rightarrow>
      case decimal_to_dms \<bar>lon\<bar> of (lon_deg, lon_min, lon_sec) \<Rightarrow>
        (let gps_ifd =
           [GPSLatitudeRef \<mapsto> EStr (if lat \<ge> 0 then ''N'' else ''S''),
            GPSLatitude \<mapsto> ERationals [(lat_deg, 1), (lat_min, 1), (py_int (lat_sec * 100), 100)],
            GPSLongitudeRef \<mapsto> EStr (if lon \<ge> 0 then ''E'' else ''W''),
            GPSLongitude \<mapsto> ERationals [(lon_deg, 1), (lon_min, 1), (py_int (lon_sec * 100), 100)]]
         in case ele of
              None \<Rightarrow> gps_ifd
            | Some e \<Rightarrow>
                gps_ifd(GPSAltitudeRef \<mapsto> EInt (if e \<ge> 0 then 0 else 1),
                        GPSAltitude \<mapsto> ERational (py_int (\<bar>e\<bar> * 100), 100))))"

text \<open>
  \<^verbatim>\<open>_write_gps_to_jpg\<close> stores the GPS block in the cached dictionary object itself
  (\<^verbatim>\<open>exif_dict['GPS'] = gps_ifd\<close>), writes the file and then clears the cache.
\<close>

definition write_gps_to_jpg ::
  "'w env \<Rightarrow> 'w \<Rightarrow> PhotoProcessor \<Rightarrow> real \<Rightarrow> real \<Rightarrow> real option
     \<Rightarrow> (py_exn + unit) \<times> PhotoProcessor \<times> 'w" where
  "write_gps_to_jpg E w self lat lon ele =
     (case get_jpeg_exif_dict E w self of
        (Inl e, self') \<Rightarrow> (Inl e, self', w)
      | (Inr exif_dict, self') \<Rightarrow>
          (let exif_dict' = exif_dict(''GPS'' \<mapsto> gps_ifd_of lat lon ele);
               self'' = self'\<lparr>jpeg_exif_dict := Some exif_dict'\<rparr>
           in case piexif_insert E w exif_dict' (photo_path self) of
                (Some e, w') \<Rightarrow> (Inl e, self'', w')
              | (None, w') \<Rightarrow> (Inr (), self''\<lparr>jpeg_exif_dict := None\<rparr>, w')))"

text \<open>
  \<^verbatim>\<open>_write_gps_to_raw\<close> runs the external tool and raises \<^verbatim>\<open>RuntimeError\<close> on a
  return code other than 0. It does not assign \<^verbatim>\<open>_raw_info\<close>.
\<close>

definition write_gps_to_raw ::
  "'w env \<Rightarrow> 'w \<Rightarrow> PhotoProcessor \<Rightarrow> real \<Rightarrow> real \<Rightarrow> real option
     \<Rightarrow> (py_exn + unit) \<times> PhotoProcessor \<times> 'w" where
  "write_gps_to_raw E w self lat lon ele =
     (let cmd =
        \<lparr>arg_GPSLatitude = lat,
         arg_GPSLatitudeRef = (if lat \<ge> 0 then ''N'' else ''S''),
         arg_GPSLongitude = lon,
         arg_GPSLongitudeRef = (if lon \<ge> 0 then ''E'' else ''W''),
         arg_GPSAltitude =
           (case ele of None \<Rightarrow> None | Some e \<Rightarrow> Some (e, if e \<ge> 0 then ''0'' else ''1'')),
         arg_file = photo_path self\<rparr>
      in case exiftool_write E w cmd of
           (Inl e, w') \<Rightarrow> (Inl e, self, w')
         | (Inr returncode, w') \<Rightarrow>
             if returncode \<noteq> 0 then (Inl RuntimeError, self, w') else (Inr (), self, w'))"

text \<open>
  \<^verbatim>\<open>write_gps_data\<close> returns normally in every case; what it logs is the value
  \<open>write_log\<close>: the dry-run line, the line of a successful update, or the error line
  of a caught exception.
\<close>

datatype write_log = Dry_run | Write_ok | Write_failed py_exn

definition write_gps_data ::
  "'w env \<Rightarrow> 'w \<Rightarrow> PhotoProcessor \<Rightarrow> real \<Rightarrow> real \<Rightarrow> real option \<Rightarrow> bool
     \<Rightarrow> write_log \<times> PhotoProcessor \<times> 'w" where
  "write_gps_data E w self lat lon ele dry_run =
     (if dry_run then (Dry_run, self, w)
      else
        (case (if is_raw self then write_gps_to_raw E w self lat lon ele
               else write_gps_to_jpg E w self lat lon ele) of
           (Inl e, self', w') \<Rightarrow> (Write_failed e, self', w')
         | (Inr u, self', w') \<Rightarrow> (Write_ok, self', w')))"

section \<open>Photo discovery\<close>

text \<open>
  The photo directory is given by \<open>directory\<close>, the paths of all entries below it.
  \<^verbatim>\<open>directory.glob('*' + ext)\<close> yields the direct children whose name ends with
  \<open>ext\<close>, \<^verbatim>\<open>rglob\<close> the entries at any depth. The flag \<open>cs\<close> says whether the
  platform's paths are case-sensitive: \<^verbatim>\<open>pathlib\<close> matches patterns and compares paths
  case-sensitively on POSIX and case-insensitively on Windows. \<^verbatim>\<open>SUPPORTED_EXTENSIONS\<close>
  is a set; the order of its iteration is lost in the final \<^verbatim>\<open>sorted\<close>.
\<close>

definition SUPPORTED_EXTENSIONS :: "string list" where
  "SUPPORTED_EXTENSIONS =
     [''.jpg'', ''.jpeg'',
      ''.arw'', ''.nef'', ''.cr2'', ''.dng'', ''.orf'', ''.rw2'', ''.raf'', ''.raw'',
      ''.avif'', ''.heic'', ''.heif'', ''.webp'',
      ''.tiff'', ''.tif'', ''.png'']"

definition glob_match :: "bool \<Rightarrow> string \<Rightarrow> string \<Rightarrow> bool" where
  "glob_match cs ext name = (if cs then suffix ext name else suffix (lower ext) (lower name))"

definition glob :: "bool \<Rightarrow> path list \<Rightarrow> string \<Rightarrow> path list" where
  "glob cs entries ext = filter (\<lambda>p. length p = 1 \<and> glob_match cs ext (last p)) entries"

definition rglob :: "bool \<Rightarrow> path list \<Rightarrow> string \<Rightarrow> path list" where
  "rglob cs entries ext = filter (\<lambda>p. p \<noteq> [] \<and> glob_match cs ext (last p)) entries"

definition path_key :: "bool \<Rightarrow> path \<Rightarrow> path" where
  "path_key cs p = (if cs then p else map lower p)"

definition find_photos :: "bool \<Rightarrow> path list \<Rightarrow> bool \<Rightarrow> path list" where
  "find_photos cs directory recursive =
     (let photos =
        (if recursive
         then concat (map (\<lambda>ext. rglob cs directory ext @ rglob cs directory (upper ext))
                        SUPPORTED_EXTENSIONS)
         else concat (map (\<lambda>ext. glob cs directory ext @ glob cs directory (upper ext))
                        SUPPORTED_EXTENSIONS))
      in sort_key (path_key cs) photos)"

section \<open>Batch pipeline\<close>

text \<open>
  The four counters of the per-photo result dictionary and of \<^verbatim>\<open>stats\<close>; the result
  has the entry \<^verbatim>\<open>in_range_no_match\<close> in addition, the statistics \<^verbatim>\<open>total\<close>.
\<close>

record counts =
  updated :: nat
  skipped_has_gps :: nat
  skipped_no_timestamp :: nat
  skipped_no_match :: nat

record photo_result = counts +
  in_range_no_match :: "(path \<times> datetime) option"

record stats = counts +
  total :: nat

definition empty_result :: photo_result where
  "empty_result =
     \<lparr>updated = 0, skipped_has_gps = 0, skipped_no_timestamp = 0, skipped_no_match = 0,
      in_range_no_match = None\<rparr>"

text \<open>
  What the run takes from its platform: the case sensitivity of paths,
  \<^verbatim>\<open>os.cpu_count()\<close>, and the order in which the thread pool completes the photos
  it was given (\<^verbatim>\<open>as_completed\<close>). The options are the keyword arguments of
  \<^verbatim>\<open>process_photos\<close>.
\<close>

record platform =
  case_sensitive :: bool
  cpu_count :: "nat option"
  completion_order :: "path list \<Rightarrow> path list"

record run_options =
  opt_overwrite_gps :: bool
  opt_dry_run :: bool
  opt_max_time_diff :: "real option"
  opt_recursive :: bool
  opt_time_offset_seconds :: real
  opt_workers :: int
  opt_force_interpolate :: bool

text \<open>
  \<^verbatim>\<open>_process_single_photo\<close>, with the matcher's trackpoints and tolerance. Besides the
  result it returns what \<^verbatim>\<open>write_gps_data\<close> logged, if it was called, and the file
  system.
\<close>

definition process_single_photo ::
  "'w env \<Rightarrow> run_options \<Rightarrow> GPSTrackPoint list \<Rightarrow> real \<Rightarrow> 'w \<Rightarrow> path
     \<Rightarrow> photo_result \<times> write_log option \<times> 'w" where
  "process_single_photo E opts trackpoints max_time_diff w photo =
     (let processor = new_PhotoProcessor photo (opt_time_offset_seconds opts) in
      case (if opt_overwrite_gps opts then (False, processor) else has_gps_data E w processor) of
        (has_gps, processor1) \<Rightarrow>
          if has_gps then (empty_result\<lparr>skipped_has_gps := 1\<rparr>, None, w)
          else
            (case get_photo_timestamp E w processor1 of
               (None, processor2) \<Rightarrow> (empty_result\<lparr>skipped_no_timestamp := 1\<rparr>, None, w)
             | (Some photo_time, processor2) \<Rightarrow>
                 (case find_gps_for_photo trackpoints max_time_diff
                         (opt_force_interpolate opts) photo_time of
                    None \<Rightarrow>
                      (let first_ts = timestamp (hd trackpoints);
                           last_ts = timestamp (last trackpoints)
                       in (empty_result
                             \<lparr>skipped_no_match := 1,
                              in_range_no_match :=
                                (if first_ts \<le> photo_time \<and> photo_time \<le> last_ts
                                 then Some (photo, photo_time) else None)\<rparr>,
                           None, w))
                  | Some (lat, lon, ele) \<Rightarrow>
                      (case write_gps_data E w processor2 lat lon ele (opt_dry_run opts) of
                         (written, processor3, w') \<Rightarrow>
                           (empty_result\<lparr>updated := 1\<rparr>, Some written, w')))))"

text \<open>
  The accumulation of the results into \<^verbatim>\<open>stats\<close> and \<^verbatim>\<open>skipped_in_range_no_match\<close>.
  With one worker the photos are processed in list order. With more workers each photo
  is processed by a thread of the pool and the main thread adds the results up in
  completion order; the model processes the photos one after the other in that order,
  which is what the threads do as long as no two of them work on the same file.
\<close>

fun run_photos ::
  "'w env \<Rightarrow> run_options \<Rightarrow> GPSTrackPoint list \<Rightarrow> real \<Rightarrow> path list
     \<Rightarrow> stats \<times> (path \<times> datetime) list \<times> 'w \<Rightarrow> stats \<times> (path \<times> datetime) list \<times> 'w" where
  "run_photos E opts trackpoints max_time_diff [] acc = acc"
| "run_photos E opts trackpoints max_time_diff (photo # rest) (st, skipped, w) =
     (case process_single_photo E opts trackpoints max_time_diff w photo of
        (res, written, w') \<Rightarrow>
          run_photos E opts trackpoints max_time_diff rest
            (st\<lparr>updated := updated st + updated res,
                skipped_has_gps := skipped_has_gps st + skipped_has_gps res,
                skipped_no_timestamp := skipped_no_timestamp st + skipped_no_timestamp res,
                skipped_no_match := skipped_no_match st + skipped_no_match res\<rparr>,
             (case in_range_no_match res of
                None \<Rightarrow> skipped
              | Some entry \<Rightarrow> skipped @ [entry]),
             w'))"

text \<open>
  \<^verbatim>\<open>process_photos\<close> returns \<^verbatim>\<open>None\<close>; what it reports is in its log: the error line
  \<^verbatim>\<open>No trackpoints found in GPX file\<close>, the warning \<^verbatim>\<open>No photos found\<close>, or the
  summary. An exception of the GPX reader propagates to the caller.
\<close>

datatype report =
  No_trackpoints | No_photos | Summary stats "(path \<times> datetime) list"

definition effective_workers :: "platform \<Rightarrow> int \<Rightarrow> int" where
  "effective_workers P workers =
     (if workers \<le> 0
      then min 32 (int (case cpu_count P of None \<Rightarrow> 4 | Some n \<Rightarrow> if n = 0 then 4 else n) * 2)
      else workers)"

definition process_photos ::
  "'w env \<Rightarrow> platform \<Rightarrow> run_options \<Rightarrow> py_exn + GPSTrackPoint list \<Rightarrow> path list \<Rightarrow> 'w
     \<Rightarrow> py_exn + report \<times> 'w" where
  "process_photos E P opts gpx directory w =
     (case gpx of
        Inl e \<Rightarrow> Inl e
      | Inr points \<Rightarrow>
          (let trackpoints = parse points in
           if trackpoints = [] then Inr (No_trackpoints, w)
           else
             (let max_time_diff =
                (case opt_max_time_diff opts of
                   None \<Rightarrow> max 60 (min (calculate_average_interval trackpoints * 3) 600)
                 | Some m \<Rightarrow> m);
                  photos = find_photos (case_sensitive P) directory (opt_recursive opts)
              in if photos = [] then Inr (No_photos, w)
                 else
                   (let st0 =
                      \<lparr>updated = 0, skipped_has_gps = 0, skipped_no_timestamp = 0,
                       skipped_no_match = 0, total = length photos\<rparr>;
                        order =
                          (if effective_workers P (opt_workers opts) \<le> 1 then photos
                           else completion_order P photos)
                    in case run_photos E opts trackpoints max_time_diff order (st0, [], w) of
                         (st, skipped, w') \<Rightarrow> Inr (Summary st skipped, w')))))"

section \<open>Predicates of the specification\<close>

text \<open>
  A tag value is found under one of two names: a truthy value under the first, or a
  value other than null under the second.
\<close>

definition has_value :: "(string \<times> jval) list \<Rightarrow> string \<Rightarrow> string \<Rightarrow> bool" where
  "has_value kvs a b =
     ((\<exists>v. map_of kvs a = Some v \<and> truthy v) \<or> (\<exists>v. map_of kvs b = Some v \<and> v \<noteq> JNull))"

text \<open>The sum of the four per-kind counts.\<close>

definition counted :: "stats \<Rightarrow> nat" where
  "counted st = updated st + skipped_has_gps st + skipped_no_timestamp st + skipped_no_match st"

section \<open>An example environment\<close>

text \<open>
  A file system for the examples: every file has an EXIF dictionary and the tags that
  the external tool reports. Reading always succeeds; the writing tool exits with the
  given code and, on code 0, adds the two GPS tags.
\<close>

record example_file =
  exif_of :: exif_dict
  tags_of :: "(string \<times> jval) list"

type_synonym example_disk = "path \<Rightarrow> example_file"

definition example_env :: "int \<Rightarrow> example_disk env" where
  "example_env exit_code =
     \<lparr>piexif_load = (\<lambda>w p. Inr (exif_of (w p))),
      piexif_insert = (\<lambda>w d p. (None, w(p := (w p)\<lparr>exif_of := d\<rparr>))),
      exiftool_json = (\<lambda>w p. Inr (0, Some (JArr [JObj (tags_of (w p))]))),
      exiftool_write =
        (\<lambda>w cmd.
           if exit_code = 0
           then (Inr 0,
                 w(arg_file cmd :=
                     (w (arg_file cmd))
                       \<lparr>tags_of :=
                          (''EXIF:GPSLatitude'', JNum (arg_GPSLatitude cmd))
                          # (''EXIF:GPSLongitude'', JNum (arg_GPSLongitude cmd))
                          # tags_of (w (arg_file cmd))\<rparr>))
           else (Inr exit_code, w)),
      strptime =
        (\<lambda>s. if s = ''2025:01:02 03:04:05'' then Some 1735787045000000
             else if s = ''2025:01:02 03:34:05'' then Some 1735788845000000
             else None),
      py_str = (\<lambda>v. case v of JStr s \<Rightarrow> s | _ \<Rightarrow> [])\<rparr>"

definition example_disk :: example_disk where
  "example_disk =
     (\<lambda>p. if p = [''far.arw''] then
            \<lparr>exif_of = Map.empty,
             tags_of = [(''EXIF:CreateDate'', JStr ''2025:01:02 03:34:05'')]\<rparr>
          else if p = [''gps.jpg''] then
            \<lparr>exif_of = [''GPS'' \<mapsto> [GPSLatitude \<mapsto> ERationals [(1, 1), (2, 1), (3, 100)]]],
             tags_of = []\<rparr>
          else
            \<lparr>exif_of = Map.empty,
             tags_of = [(''EXIF:DateTimeOriginal'', JStr ''2025:01:02 03:04:05.123'')]\<rparr>)"

definition example_track :: "GPSTrackPoint list" where
  "example_track =
     [\<lparr>timestamp = 1735783445000000, latitude = 1, longitude = 2, elevation = None\<rparr>,
      \<lparr>timestamp = 1735787045000000, latitude = 3, longitude = 4, elevation = Some 5\<rparr>,
      \<lparr>timestamp = 1735790645000000, latitude = 5, longitude = 6, elevation = Some 7\<rparr>]"

definition example_options :: run_options where
  "example_options =
     \<lparr>opt_overwrite_gps = False, opt_dry_run = False, opt_max_time_diff = None,
      opt_recursive = False, opt_time_offset_seconds = 0, opt_workers = 0,
      opt_force_interpolate = False\<rparr>"

definition example_platform :: platform where
  "example_platform = \<lparr>case_sensitive = True, cpu_count = Some 4, completion_order = rev\<rparr>"

definition example_directory :: "path list" where
  "example_directory = [[''far.arw''], [''a.arw''], [''b.jpg''], [''gps.jpg''], [''notes.txt'']]"

definition lat_only_disk :: example_disk where
  "lat_only_disk =
     (\<lambda>p. \<lparr>exif_of = [''GPS'' \<mapsto> [GPSLatitude \<mapsto> ERationals [(1, 1), (2, 1), (3, 100)]]],
            tags_of = [(''EXIF:GPSLatitude'', JNum 1)]\<rparr>)"

definition gps_disk :: example_disk where
  "gps_disk =
     (\<lambda>p. \<lparr>exif_of =
              [''GPS'' \<mapsto> [GPSLatitude \<mapsto> ERationals [(1, 1), (2, 1), (3, 100)],
                            GPSLongitude \<mapsto> ERationals [(4, 1), (5, 1), (6, 100)]]],
            tags_of = [(''EXIF:GPSLatitude'', JNum 0), (''Composite:GPSLatitude'', JNum 0),
                       (''Composite:GPSLongitude'', JNum 4)]\<rparr>)"


section \<open>Properties of the scanning loop\<close>

lemma scan_trackpoints_split:
  "scan_trackpoints xs q b =
     ((if takeWhile (\<lambda>p. timestamp p \<le> q) xs = [] then b
       else Some (last (takeWhile (\<lambda>p. timestamp p \<le> q) xs))),
      (case dropWhile (\<lambda>p. timestamp p \<le> q) xs of [] \<Rightarrow> None | a # _ \<Rightarrow> Some a))"
  by (induction xs arbitrary: b) auto

lemma scan_trackpoints_first_later:
  "xs \<noteq> [] \<Longrightarrow> q < timestamp (hd xs) \<Longrightarrow> scan_trackpoints xs q None = (None, Some (hd xs))"
  by (cases xs) auto

lemma scan_trackpoints_all_before:
  "xs \<noteq> [] \<Longrightarrow> \<forall>p \<in> set xs. timestamp p \<le> q \<Longrightarrow>
     scan_trackpoints xs q None = (Some (last xs), None)"
proof -
  assume ne: "xs \<noteq> []" and all: "\<forall>p \<in> set xs. timestamp p \<le> q"
  have tw: "takeWhile (\<lambda>p. timestamp p \<le> q) xs = xs"
    using all by (simp add: takeWhile_eq_all_conv)
  have dw: "dropWhile (\<lambda>p. timestamp p \<le> q) xs = []"
    using all by simp
  show ?thesis
    unfolding scan_trackpoints_split tw dw using ne by simp
qed

lemma scan_trackpoints_between:
  assumes "\<forall>p \<in> set pre. timestamp p \<le> q" and "timestamp b \<le> q" and "q < timestamp a"
  shows "scan_trackpoints (pre @ b # a # post) q None = (Some b, Some a)"
proof -
  have tw: "takeWhile (\<lambda>p. timestamp p \<le> q) (pre @ b # a # post) = pre @ [b]"
    using assms by (simp add: takeWhile_append2)
  have dw: "dropWhile (\<lambda>p. timestamp p \<le> q) (pre @ b # a # post) = a # post"
    using assms by (simp add: dropWhile_append2)
  show ?thesis
    unfolding scan_trackpoints_split tw dw by simp
qed

lemma sorted_prefix_le:
  assumes "sorted (map timestamp (pre @ b # rest))" and "p \<in> set pre"
  shows "timestamp p \<le> timestamp b"
  using assms by (auto simp: sorted_append)

lemma sorted_parse: "sorted (map timestamp (parse points))"
  by (simp add: parse_def)

lemma sorted_le_last:
  assumes "sorted (map timestamp xs)" and "p \<in> set xs"
  shows "timestamp p \<le> timestamp (last xs)"
proof -
  from assms(2) have "xs \<noteq> []" by auto
  then obtain ys y where xs: "xs = ys @ [y]"
    by (cases xs rule: rev_cases) auto
  show ?thesis
    using assms unfolding xs by (auto simp: sorted_append)
qed

lemma intervals_of_eq: "intervals_of tps = positive_deltas tps"
proof -
  have "map (\<lambda>i. total_seconds (timestamp (tps ! i) - timestamp (tps ! (i - 1)))) [1 ..< length tps]
      = successive_deltas tps"
    unfolding successive_deltas_def
    by (rule nth_equalityI) (auto simp: total_seconds_def nth_tl)
  moreover have "(\<lambda>delta::real. delta > 0) = (\<lambda>d. \<not> d \<le> 0)"
    by (auto simp: fun_eq_iff)
  ultimately show ?thesis
    by (simp add: intervals_of_def positive_deltas_def)
qed

section \<open>Position matcher: interpolation between two consecutive trackpoints\<close>

text \<open>
  Claim C1. In a trace store (sorted by timestamp) that contains the consecutive
  trackpoints \<open>b\<close> and \<open>a\<close>, for a query \<open>q\<close> with \<open>timestamp b < q < timestamp a\<close>,
  when matching does not refuse (force is set, or the smaller of the two gaps, in
  seconds, is within the tolerance), \<open>find_gps_for_photo\<close> returns
  \<open>latitude b + (latitude a - latitude b) * ratio\<close>, the same for the longitude, with
  \<open>ratio = (q - timestamp b) / (timestamp a - timestamp b)\<close>, and an elevation
  interpolated with the same ratio exactly when both endpoints carry one, and no
  elevation otherwise.
\<close>

theorem interpolation_between_consecutive:
  assumes "sorted (map timestamp (pre @ b # a # post))"
    and "timestamp b < q" and "q < timestamp a"
    and "force \<or> min (real_of_int (q - timestamp b) / 1000000)
                      (real_of_int (timestamp a - q) / 1000000) \<le> tol"
    and "ratio = real_of_int (q - timestamp b) / real_of_int (timestamp a - timestamp b)"
  shows "find_gps_for_photo (pre @ b # a # post) tol force q =
     Some (latitude b + (latitude a - latitude b) * ratio,
           longitude b + (longitude a - longitude b) * ratio,
           (if elevation b \<noteq> None \<and> elevation a \<noteq> None
            then Some (the (elevation b) + (the (elevation a) - the (elevation b)) * ratio)
            else None))"
proof -
  have pre: "\<forall>p \<in> set pre. timestamp p \<le> q"
    using sorted_prefix_le [OF assms(1)] assms(2) by fastforce
  have sc: "scan_trackpoints (pre @ b # a # post) q None = (Some b, Some a)"
    using pre assms(2,3) by (intro scan_trackpoints_between) auto
  have tt: "total_seconds (timestamp a - timestamp b) \<noteq> 0"
    using assms(2,3) by (simp add: total_seconds_def)
  have r: "total_seconds (q - timestamp b) / total_seconds (timestamp a - timestamp b) = ratio"
    unfolding total_seconds_def assms(5) by (simp del: of_int_diff)
  have gate: "\<not> (\<not> force \<and>
      min (total_seconds (q - timestamp b)) (total_seconds (timestamp a - q)) > tol)"
    using assms(4) unfolding total_seconds_def by (metis not_less)
  have "find_gps_for_photo (pre @ b # a # post) tol force q = Some (interpolate b a ratio)"
    using gate tt r by (simp add: find_gps_for_photo_def sc Let_def del: min_less_iff_conj)
  then show ?thesis
    by (auto simp: interpolate_def split: option.splits)
qed

theorem interpolation_between_consecutive_witness:
  "sorted (map timestamp
      [\<lparr>timestamp = 0, latitude = 0, longitude = 0, elevation = Some 10\<rparr>,
       \<lparr>timestamp = 60000000, latitude = 1, longitude = 1, elevation = Some 20\<rparr>])
   \<and> find_gps_for_photo
      [\<lparr>timestamp = 0, latitude = 0, longitude = 0, elevation = Some 10\<rparr>,
       \<lparr>timestamp = 60000000, latitude = 1, longitude = 1, elevation = Some 20\<rparr>]
      60 False 30000000 = Some (1 / 2, 1 / 2, Some 15)"
  using interpolation_between_consecutive
    [of "[]" "\<lparr>timestamp = 0, latitude = 0, longitude = 0, elevation = Some 10\<rparr>"
        "\<lparr>timestamp = 60000000, latitude = 1, longitude = 1, elevation = Some 20\<rparr>"
        "[]" 30000000 False 60 "1 / 2"]
  by simp

section \<open>Position matcher: queries outside the covered time range\<close>

text \<open>
  Claim C3. For a non-empty trace store and a query that precedes the first
  trackpoint: if force is set or the gap \<open>first.timestamp - query\<close>, in seconds, is at
  most the tolerance, \<open>find_gps_for_photo\<close> returns the first trackpoint's position
  (latitude, longitude and elevation) unchanged, and otherwise it returns no match.
  The same holds for a query after the last trackpoint, with the last point and the gap
  \<open>query - last.timestamp\<close>.
\<close>

theorem boundary_clamp:
  assumes "store \<noteq> []" and "sorted (map timestamp store)"
  shows "(q < timestamp (hd store) \<longrightarrow>
           find_gps_for_photo store tol force q =
             (if force \<or> real_of_int (timestamp (hd store) - q) / 1000000 \<le> tol
              then Some (latitude (hd store), longitude (hd store), elevation (hd store))
              else None))
       \<and> (timestamp (last store) < q \<longrightarrow>
           find_gps_for_photo store tol force q =
             (if force \<or> real_of_int (q - timestamp (last store)) / 1000000 \<le> tol
              then Some (latitude (last store), longitude (last store), elevation (last store))
              else None))"
proof (intro conjI impI)
  assume "q < timestamp (hd store)"
  then have "scan_trackpoints store q None = (None, Some (hd store))"
    using assms(1) by (rule scan_trackpoints_first_later [rotated])
  then show "find_gps_for_photo store tol force q =
             (if force \<or> real_of_int (timestamp (hd store) - q) / 1000000 \<le> tol
              then Some (latitude (hd store), longitude (hd store), elevation (hd store))
              else None)"
    using assms(1) by (simp add: find_gps_for_photo_def total_seconds_def position_of_def)
next
  assume late: "timestamp (last store) < q"
  have "\<forall>p \<in> set store. timestamp p \<le> q"
    using sorted_le_last [OF assms(2)] late by fastforce
  then have "scan_trackpoints store q None = (Some (last store), None)"
    using assms(1) by (intro scan_trackpoints_all_before)
  then show "find_gps_for_photo store tol force q =
             (if force \<or> real_of_int (q - timestamp (last store)) / 1000000 \<le> tol
              then Some (latitude (last store), longitude (last store), elevation (last store))
              else None)"
    using assms(1) by (simp add: find_gps_for_photo_def total_seconds_def position_of_def)
qed

theorem boundary_clamp_witness:
  "find_gps_for_photo
      [\<lparr>timestamp = 100000000, latitude = 1, longitude = 2, elevation = Some 3\<rparr>,
       \<lparr>timestamp = 200000000, latitude = 4, longitude = 5, elevation = None\<rparr>]
      60 False 40000000 = Some (1, 2, Some 3)
   \<and> find_gps_for_photo
      [\<lparr>timestamp = 100000000, latitude = 1, longitude = 2, elevation = Some 3\<rparr>,
       \<lparr>timestamp = 200000000, latitude = 4, longitude = 5, elevation = None\<rparr>]
      60 False 39999999 = None
   \<and> find_gps_for_photo
      [\<lparr>timestamp = 100000000, latitude = 1, longitude = 2, elevation = Some 3\<rparr>,
       \<lparr>timestamp = 200000000, latitude = 4, longitude = 5, elevation = None\<rparr>]
      60 True 39999999 = Some (1, 2, Some 3)
   \<and> find_gps_for_photo
      [\<lparr>timestamp = 100000000, latitude = 1, longitude = 2, elevation = Some 3\<rparr>,
       \<lparr>timestamp = 200000000, latitude = 4, longitude = 5, elevation = None\<rparr>]
      60 False 260000000 = Some (4, 5, None)
   \<and> find_gps_for_photo
      [\<lparr>timestamp = 100000000, latitude = 1, longitude = 2, elevation = Some 3\<rparr>,
       \<lparr>timestamp = 200000000, latitude = 4, longitude = 5, elevation = None\<rparr>]
      60 False 260000001 = None"
  using
    boundary_clamp [of "[\<lparr>timestamp = 100000000, latitude = 1, longitude = 2, elevation = Some 3\<rparr>,
       \<lparr>timestamp = 200000000, latitude = 4, longitude = 5, elevation = None\<rparr>]" 40000000 60 False]
    boundary_clamp [of "[\<lparr>timestamp = 100000000, latitude = 1, longitude = 2, elevation = Some 3\<rparr>,
       \<lparr>timestamp = 200000000, latitude = 4, longitude = 5, elevation = None\<rparr>]" 39999999 60 False]
    boundary_clamp [of "[\<lparr>timestamp = 100000000, latitude = 1, longitude = 2, elevation = Some 3\<rparr>,
       \<lparr>timestamp = 200000000, latitude = 4, longitude = 5, elevation = None\<rparr>]" 39999999 60 True]
    boundary_clamp [of "[\<lparr>timestamp = 100000000, latitude = 1, longitude = 2, elevation = Some 3\<rparr>,
       \<lparr>timestamp = 200000000, latitude = 4, longitude = 5, elevation = None\<rparr>]" 260000000 60 False]
    boundary_clamp [of "[\<lparr>timestamp = 100000000, latitude = 1, longitude = 2, elevation = Some 3\<rparr>,
       \<lparr>timestamp = 200000000, latitude = 4, longitude = 5, elevation = None\<rparr>]" 260000001 60 False]
  by simp



section \<open>Position matcher: a query equal to a trackpoint's timestamp\<close>




section \<open>Interval estimator\<close>

text \<open>
  Claim C7. \<open>calculate_average_interval\<close> returns 300 seconds for a store with fewer
  than two points; otherwise it returns the arithmetic mean of the strictly positive
  successive time deltas between consecutive points (every delta \<open>\<le> 0\<close> discarded),
  and 300 seconds when no positive delta remains. For the timestamps 0 s, 100 s and
  300 s it returns 150.
\<close>

theorem average_interval:
  "calculate_average_interval tps =
     (if length tps < 2 then 300
      else if positive_deltas tps = [] then 300
      else sum_list (positive_deltas tps) / real (length (positive_deltas tps)))
   \<and> calculate_average_interval
       [\<lparr>timestamp = 0, latitude = la0, longitude = lo0, elevation = e0\<rparr>,
        \<lparr>timestamp = 100000000, latitude = la1, longitude = lo1, elevation = e1\<rparr>,
        \<lparr>timestamp = 300000000, latitude = la2, longitude = lo2, elevation = e2\<rparr>] = 150"
proof
  show "calculate_average_interval tps =
     (if length tps < 2 then 300
      else if positive_deltas tps = [] then 300
      else sum_list (positive_deltas tps) / real (length (positive_deltas tps)))"
    by (simp add: calculate_average_interval_def intervals_of_eq Let_def)
next
  show "calculate_average_interval
       [\<lparr>timestamp = 0, latitude = la0, longitude = lo0, elevation = e0\<rparr>,
        \<lparr>timestamp = 100000000, latitude = la1, longitude = lo1, elevation = e1\<rparr>,
        \<lparr>timestamp = 300000000, latitude = la2, longitude = lo2, elevation = e2\<rparr>] = 150"
    by (simp add: calculate_average_interval_def intervals_of_def total_seconds_def
          upt_conv_Cons Let_def)
qed

section \<open>Metadata accessor: presence of GPS data\<close>

lemma truthy_not_null: "truthy v \<Longrightarrow> v \<noteq> JNull"
  by (cases v) auto

lemma py_or_has_value:
  "(py_or (case map_of kvs a of None \<Rightarrow> JNull | Some v \<Rightarrow> v)
          (case map_of kvs b of None \<Rightarrow> JNull | Some v \<Rightarrow> v) \<noteq> JNull) = has_value kvs a b"
  by (auto simp: py_or_def has_value_def truthy_not_null split: option.splits)

lemma has_gps_data_raw:
  assumes "is_raw self" and "raw_info self = JNull"
  shows "fst (has_gps_data E w self) =
     (\<exists>kvs. run_exiftool_json E w self = Inr (JObj kvs)
        \<and> has_value kvs ''EXIF:GPSLatitude'' ''Composite:GPSLatitude''
        \<and> has_value kvs ''EXIF:GPSLongitude'' ''Composite:GPSLongitude'')"
proof (cases "run_exiftool_json E w self")
  case (Inl e)
  then show ?thesis using assms by (simp add: has_gps_data_def get_raw_info_def)
next
  case (Inr info)
  show ?thesis
  proof (cases info)
    case (JObj kvs)
    then show ?thesis
      using assms Inr
      by (simp add: has_gps_data_def get_raw_info_def py_or_has_value)
  qed (use assms Inr in \<open>simp_all add: has_gps_data_def get_raw_info_def\<close>)
qed

lemma has_gps_data_jpeg:
  assumes "\<not> is_raw self" and "jpeg_exif_dict self = None"
  shows "fst (has_gps_data E w self) =
     (\<exists>d. piexif_load E w (photo_path self) = Inr d \<and> ifd_get d ''GPS'' GPSLatitude \<noteq> None)"
  using assms
  by (cases "piexif_load E w (photo_path self)")
     (simp_all add: has_gps_data_def get_jpeg_exif_dict_def)

text \<open>
  Claim C4, as stated, fails in both backends. A JPEG whose GPS block has a latitude
  tag and no longitude tag is reported as having GPS data; a RAW file for which the
  external tool reports a latitude and no longitude is reported as having none.
\<close>

theorem has_gps_data_counterexample:
  "fst (has_gps_data (example_env 0) lat_only_disk (new_PhotoProcessor [''a.JPG''] 0)) = True
   \<and> ifd_get (exif_of (lat_only_disk [''a.JPG''])) ''GPS'' GPSLongitude = None
   \<and> fst (has_gps_data (example_env 0) lat_only_disk (new_PhotoProcessor [''a.arw''] 0)) = False
   \<and> map_of (tags_of (lat_only_disk [''a.arw''])) ''EXIF:GPSLatitude'' = Some (JNum 1)"
  by code_simp

text \<open>
  Claim C4, amended. For a freshly constructed photo record: with the embedded-codec
  (JPEG) backend \<open>has_gps_data\<close> is true iff the metadata loads and its GPS block
  contains a latitude tag (the longitude is not consulted); with the external-tool
  backend it is true iff the tool returns a record in which both a latitude value and
  a longitude value are found (under the \<open>EXIF\<close> name, or else under the \<open>Composite\<close>
  name). In particular it is false on every read error.
\<close>

theorem has_gps_data_fresh:
  "(\<not> is_raw (new_PhotoProcessor photo off) \<longrightarrow>
      fst (has_gps_data E w (new_PhotoProcessor photo off)) =
        (\<exists>d. piexif_load E w photo = Inr d \<and> ifd_get d ''GPS'' GPSLatitude \<noteq> None))
   \<and> (is_raw (new_PhotoProcessor photo off) \<longrightarrow>
      fst (has_gps_data E w (new_PhotoProcessor photo off)) =
        (\<exists>kvs. run_exiftool_json E w (new_PhotoProcessor photo off) = Inr (JObj kvs)
           \<and> has_value kvs ''EXIF:GPSLatitude'' ''Composite:GPSLatitude''
           \<and> has_value kvs ''EXIF:GPSLongitude'' ''Composite:GPSLongitude''))"
proof (intro conjI impI)
  assume "\<not> is_raw (new_PhotoProcessor photo off)"
  then show "fst (has_gps_data E w (new_PhotoProcessor photo off)) =
        (\<exists>d. piexif_load E w photo = Inr d \<and> ifd_get d ''GPS'' GPSLatitude \<noteq> None)"
    using has_gps_data_jpeg [of "new_PhotoProcessor photo off" E w]
    by (simp add: new_PhotoProcessor_def)
next
  assume "is_raw (new_PhotoProcessor photo off)"
  then show "fst (has_gps_data E w (new_PhotoProcessor photo off)) =
        (\<exists>kvs. run_exiftool_json E w (new_PhotoProcessor photo off) = Inr (JObj kvs)
           \<and> has_value kvs ''EXIF:GPSLatitude'' ''Composite:GPSLatitude''
           \<and> has_value kvs ''EXIF:GPSLongitude'' ''Composite:GPSLongitude'')"
    by (intro has_gps_data_raw) (simp_all add: new_PhotoProcessor_def)
qed

theorem has_gps_data_fresh_witness:
  "fst (has_gps_data (example_env 0) gps_disk (new_PhotoProcessor [''b.jpeg''] 0)) = True
   \<and> fst (has_gps_data (example_env 0) gps_disk (new_PhotoProcessor [''b.nef''] 0)) = True
   \<and> fst (has_gps_data (example_env 0) example_disk (new_PhotoProcessor [''b.nef''] 0)) = False"
proof -
  have jpeg: "\<not> is_raw (new_PhotoProcessor [''b.jpeg''] 0)"
    by code_simp
  have raw: "is_raw (new_PhotoProcessor [''b.nef''] 0)"
    by code_simp
  have load: "piexif_load (example_env 0) gps_disk [''b.jpeg''] = Inr (exif_of (gps_disk [''b.jpeg'']))"
    by (simp add: example_env_def)
  have lat: "ifd_get (exif_of (gps_disk [''b.jpeg''])) ''GPS'' GPSLatitude \<noteq> None"
    by code_simp
  have tool1: "run_exiftool_json (example_env 0) gps_disk (new_PhotoProcessor [''b.nef''] 0)
      = Inr (JObj [(''EXIF:GPSLatitude'', JNum 0), (''Composite:GPSLatitude'', JNum 0),
                   (''Composite:GPSLongitude'', JNum 4)])"
    by code_simp
  have tool2: "run_exiftool_json (example_env 0) example_disk (new_PhotoProcessor [''b.nef''] 0)
      = Inr (JObj [(''EXIF:DateTimeOriginal'', JStr ''2025:01:02 03:04:05.123'')])"
    by code_simp
  have v1: "has_value [(''EXIF:GPSLatitude'', JNum 0), (''Composite:GPSLatitude'', JNum 0),
                   (''Composite:GPSLongitude'', JNum 4)] ''EXIF:GPSLatitude'' ''Composite:GPSLatitude''"
    by (simp add: has_value_def)
  have v2: "has_value [(''EXIF:GPSLatitude'', JNum 0), (''Composite:GPSLatitude'', JNum 0),
                   (''Composite:GPSLongitude'', JNum 4)] ''EXIF:GPSLongitude'' ''Composite:GPSLongitude''"
    by (simp add: has_value_def)
  have v3: "\<not> has_value [(''EXIF:DateTimeOriginal'', JStr ''2025:01:02 03:04:05.123'')]
                   ''EXIF:GPSLatitude'' ''Composite:GPSLatitude''"
    by (simp add: has_value_def)
  show ?thesis
    using has_gps_data_fresh [of "[''b.jpeg'']" 0 "example_env 0" gps_disk]
      has_gps_data_fresh [of "[''b.nef'']" 0 "example_env 0" gps_disk]
      has_gps_data_fresh [of "[''b.nef'']" 0 "example_env 0" example_disk]
      jpeg raw load lat tool1 tool2 v1 v2 v3
    by simp
qed

section \<open>Metadata accessor: the caches after a write\<close>

lemma write_gps_to_raw_keeps_self:
  "fst (snd (write_gps_to_raw E w self lat lon ele)) = self"
proof -
  obtain r w' where "exiftool_write E w
        \<lparr>arg_GPSLatitude = lat,
         arg_GPSLatitudeRef = (if lat \<ge> 0 then ''N'' else ''S''),
         arg_GPSLongitude = lon,
         arg_GPSLongitudeRef = (if lon \<ge> 0 then ''E'' else ''W''),
         arg_GPSAltitude =
           (case ele of None \<Rightarrow> None | Some e \<Rightarrow> Some (e, if e \<ge> 0 then ''0'' else ''1'')),
         arg_file = photo_path self\<rparr> = (r, w')"
    by (meson surj_pair)
  then show ?thesis
    unfolding write_gps_to_raw_def Let_def by (cases r) simp_all
qed

lemma write_gps_data_raw_keeps_cache:
  assumes "is_raw self"
  shows "fst (snd (write_gps_data E w self lat lon ele dry)) = self"
proof (cases dry)
  case True
  then show ?thesis by (simp add: write_gps_data_def)
next
  case False
  obtain r self' w' where wr: "write_gps_to_raw E w self lat lon ele = (r, self', w')"
    by (metis prod_cases3)
  then have "self' = self"
    using write_gps_to_raw_keeps_self [of E w self lat lon ele] by simp
  then show ?thesis
    using assms False wr by (cases r) (simp_all add: write_gps_data_def)
qed

lemma write_gps_to_jpg_invalidates:
  assumes "write_gps_to_jpg E w self lat lon ele = (Inr u, self', w')"
  shows "jpeg_exif_dict self' = None"
proof -
  obtain r self1 where g: "get_jpeg_exif_dict E w self = (r, self1)"
    by (meson surj_pair)
  show ?thesis
  proof (cases r)
    case (Inl e)
    then show ?thesis using assms g by (simp add: write_gps_to_jpg_def)
  next
    case (Inr d)
    obtain x w1 where ins:
      "piexif_insert E w (d(''GPS'' \<mapsto> gps_ifd_of lat lon ele)) (photo_path self) = (x, w1)"
      by (meson surj_pair)
    show ?thesis
      using assms g Inr ins by (cases x) (auto simp: write_gps_to_jpg_def Let_def)
  qed
qed

lemma write_gps_data_jpeg_invalidates:
  assumes "\<not> is_raw self"
    and "write_gps_data E w self lat lon ele False = (Write_ok, self', w')"
  shows "jpeg_exif_dict self' = None"
proof -
  obtain r self1 w1 where wr: "write_gps_to_jpg E w self lat lon ele = (r, self1, w1)"
    by (metis prod_cases3)
  show ?thesis
  proof (cases r)
    case (Inl e)
    then show ?thesis using assms wr by (simp add: write_gps_data_def)
  next
    case (Inr u)
    then have "self1 = self'" using assms wr by (simp add: write_gps_data_def)
    then show ?thesis using write_gps_to_jpg_invalidates wr Inr by metis
  qed
qed

text \<open>
  Claim C5 requires that a successful write invalidates the cached metadata in both
  backends. The JPEG branch does; the RAW branch leaves \<open>raw_info\<close> as it was. For the
  RAW photo \<open>a.arw\<close> without GPS tags: \<open>has_gps_data\<close> is false and fills the cache, the
  write succeeds, and afterwards the same record still holds the tags read before the
  write and still answers false, while a fresh record on the written file answers true.
\<close>

theorem raw_write_keeps_stale_cache:
  "(let E = example_env 0;
        fresh = new_PhotoProcessor [''a.arw''] 0;
        (had_gps, self1) = has_gps_data E example_disk fresh;
        (written, self2, disk2) = write_gps_data E example_disk self1 1 2 None False
    in is_raw fresh \<and> \<not> had_gps \<and> written = Write_ok
       \<and> raw_info self2 = JObj (tags_of (example_disk [''a.arw'']))
       \<and> fst (has_gps_data E disk2 self2) = False
       \<and> fst (has_gps_data E disk2 fresh) = True
       \<and> fst (get_photo_timestamp E disk2 self2) = Some 1735787045000000)"
  by code_simp

section \<open>Photo discovery\<close>

lemma find_photos_sorted: "sorted (map (path_key cs) (find_photos cs directory recursive))"
  by (simp add: find_photos_def Let_def)

text \<open>
  Claim C8 requires every file whose extension is in the allow-list, in any letter
  case, to be found exactly once. With case-sensitive matching a file with a
  mixed-case extension is not found, neither directly nor recursively, although its
  lower-cased suffix is in the allow-list; the all-lower and all-upper spellings are
  found. With case-insensitive matching a file matches both patterns and is returned
  twice.
\<close>

theorem find_photos_mixed_case_missed:
  "find_photos True [[''IMG_0001.Jpg'']] False = []
   \<and> find_photos True [[''IMG_0001.Jpg'']] True = []
   \<and> lower (path_suffix [''IMG_0001.Jpg'']) \<in> set SUPPORTED_EXTENSIONS
   \<and> find_photos True [[''b.JPG''], [''a.jpg'']] False = [[''a.jpg''], [''b.JPG'']]
   \<and> find_photos False [[''a.jpg'']] False = [[''a.jpg''], [''a.jpg'']]"
  by code_simp

section \<open>Batch pipeline: an empty trace\<close>


section \<open>Batch pipeline: the outcome of one photo\<close>

lemma process_single_photo_cases:
  fixes E :: "'w env"
  obtains
    (has_gps) "fst (process_single_photo E opts tps tol w photo) = empty_result\<lparr>skipped_has_gps := 1\<rparr>"
  | (no_timestamp) "fst (process_single_photo E opts tps tol w photo) = empty_result\<lparr>skipped_no_timestamp := 1\<rparr>"
  | (no_match) t where
      "fst (process_single_photo E opts tps tol w photo) =
         empty_result\<lparr>skipped_no_match := 1,
           in_range_no_match :=
             (if timestamp (hd tps) \<le> t \<and> t \<le> timestamp (last tps) then Some (photo, t) else None)\<rparr>"
      "find_gps_for_photo tps tol (opt_force_interpolate opts) t = None"
  | (updated) "fst (process_single_photo E opts tps tol w photo) = empty_result\<lparr>updated := 1\<rparr>"
proof -
  define gate where "gate =
    (if opt_overwrite_gps opts
     then (False, new_PhotoProcessor photo (opt_time_offset_seconds opts))
     else has_gps_data E w (new_PhotoProcessor photo (opt_time_offset_seconds opts)))"
  obtain g processor1 where gate: "gate = (g, processor1)" by (cases gate)
  obtain ts processor2 where stamp: "get_photo_timestamp E w processor1 = (ts, processor2)"
    by (cases "get_photo_timestamp E w processor1")
  have unfold: "process_single_photo E opts tps tol w photo =
     (if g then (empty_result\<lparr>skipped_has_gps := 1\<rparr>, None, w)
      else
        (case ts of
           None \<Rightarrow> (empty_result\<lparr>skipped_no_timestamp := 1\<rparr>, None, w)
         | Some photo_time \<Rightarrow>
             (case find_gps_for_photo tps tol (opt_force_interpolate opts) photo_time of
                None \<Rightarrow>
                  (empty_result
                     \<lparr>skipped_no_match := 1,
                      in_range_no_match :=
                        (if timestamp (hd tps) \<le> photo_time \<and> photo_time \<le> timestamp (last tps)
                         then Some (photo, photo_time) else None)\<rparr>,
                   None, w)
              | Some (lat, lon, ele) \<Rightarrow>
                  (case write_gps_data E w processor2 lat lon ele (opt_dry_run opts) of
                     (written, processor3, w') \<Rightarrow>
                       (empty_result\<lparr>updated := 1\<rparr>, Some written, w')))))"
    unfolding process_single_photo_def Let_def gate_def [symmetric] gate
    by (simp add: stamp)
  show thesis
  proof (cases g)
    case True
    then show thesis using unfold has_gps by simp
  next
    case False
    show thesis
    proof (cases ts)
      case None
      then show thesis using unfold False no_timestamp by simp
    next
      case (Some photo_time)
      show thesis
      proof (cases "find_gps_for_photo tps tol (opt_force_interpolate opts) photo_time")
        case None
        then show thesis using unfold False Some no_match [of photo_time] by simp
      next
        case found: (Some pos)
        obtain lat lon ele where pos: "pos = (lat, lon, ele)" by (cases pos)
        obtain written processor3 w' where
          wr: "write_gps_data E w processor2 lat lon ele (opt_dry_run opts) = (written, processor3, w')"
          by (cases "write_gps_data E w processor2 lat lon ele (opt_dry_run opts)")
        show thesis using unfold False Some found pos wr updated by simp
      qed
    qed
  qed
qed

text \<open>
  Claim C10. For a photo that passes the GPS check, has a capture time and is matched,
  the result is \<open>updated\<close> whatever the write does: \<open>write_gps_data\<close> is called, returns
  normally, and an exception of the write (the \<open>RuntimeError\<close> of a non-zero exit code
  of the external tool included) only changes what it logs. The result of the photo is
  the same for a failed and for a successful write.
\<close>

theorem updated_regardless_of_write:
  assumes "processor = new_PhotoProcessor photo (opt_time_offset_seconds opts)"
    and "gate = (if opt_overwrite_gps opts then (False, processor) else has_gps_data E w processor)"
    and "\<not> fst gate"
    and "get_photo_timestamp E w (snd gate) = (Some photo_time, processor2)"
    and "find_gps_for_photo tps tol (opt_force_interpolate opts) photo_time = Some (lat, lon, ele)"
  shows "fst (process_single_photo E opts tps tol w photo) = empty_result\<lparr>updated := 1\<rparr>
       \<and> fst (snd (process_single_photo E opts tps tol w photo)) =
            Some (fst (write_gps_data E w processor2 lat lon ele (opt_dry_run opts)))
       \<and> (\<not> opt_dry_run opts \<longrightarrow>
            (fst (write_gps_data E w processor2 lat lon ele False) =
               (case (if is_raw processor2 then fst (write_gps_to_raw E w processor2 lat lon ele)
                      else fst (write_gps_to_jpg E w processor2 lat lon ele)) of
                  Inl e \<Rightarrow> Write_failed e | Inr u \<Rightarrow> Write_ok)))"
proof -
  obtain has_gps processor1 where g: "gate = (has_gps, processor1)" by (cases gate)
  have "has_gps = False" using assms(3) g by simp
  then have a: "(if opt_overwrite_gps opts
            then (False, new_PhotoProcessor photo (opt_time_offset_seconds opts))
            else has_gps_data E w (new_PhotoProcessor photo (opt_time_offset_seconds opts)))
           = (False, processor1)"
    using assms(2) g unfolding assms(1) by metis
  have b: "get_photo_timestamp E w processor1 = (Some photo_time, processor2)"
    using assms(4) g by simp
  have "process_single_photo E opts tps tol w photo =
     (case write_gps_data E w processor2 lat lon ele (opt_dry_run opts) of
        (written, processor3, w') \<Rightarrow> (empty_result\<lparr>updated := 1\<rparr>, Some written, w'))"
    unfolding process_single_photo_def Let_def a by (simp add: b assms(5))
  then have "fst (process_single_photo E opts tps tol w photo) = empty_result\<lparr>updated := 1\<rparr>"
    and "fst (snd (process_single_photo E opts tps tol w photo)) =
            Some (fst (write_gps_data E w processor2 lat lon ele (opt_dry_run opts)))"
    by (simp_all split: prod.splits)
  moreover have "fst (write_gps_data E w processor2 lat lon ele False) =
               (case (if is_raw processor2 then fst (write_gps_to_raw E w processor2 lat lon ele)
                      else fst (write_gps_to_jpg E w processor2 lat lon ele)) of
                  Inl e \<Rightarrow> Write_failed e | Inr u \<Rightarrow> Write_ok)"
    by (simp add: write_gps_data_def split: prod.splits sum.splits)
  ultimately show ?thesis by simp
qed

theorem updated_regardless_of_write_witness:
  "fst (process_single_photo (example_env 1) example_options example_track 600 example_disk
          [''a.arw'']) = empty_result\<lparr>updated := 1\<rparr>
   \<and> fst (snd (process_single_photo (example_env 1) example_options example_track 600
          example_disk [''a.arw''])) = Some (Write_failed RuntimeError)"
proof -
  define processor where
    "processor = new_PhotoProcessor [''a.arw''] (opt_time_offset_seconds example_options)"
  define gate where
    "gate = (if opt_overwrite_gps example_options then (False, processor)
             else has_gps_data (example_env 1) example_disk processor)"
  define processor2 where
    "processor2 = snd (get_photo_timestamp (example_env 1) example_disk (snd gate))"
  have g: "\<not> fst gate"
    unfolding gate_def processor_def by code_simp
  have "fst (get_photo_timestamp (example_env 1) example_disk (snd gate)) = Some 1735787045000000"
    unfolding gate_def processor_def by code_simp
  then have ts: "get_photo_timestamp (example_env 1) example_disk (snd gate)
      = (Some 1735787045000000, processor2)"
    unfolding processor2_def by (metis prod.collapse)
  have m: "find_gps_for_photo example_track 600 (opt_force_interpolate example_options)
      1735787045000000 = Some (3, 4, Some 5)"
    by code_simp
  have wr: "fst (write_gps_data (example_env 1) example_disk processor2 3 4 (Some 5)
      (opt_dry_run example_options)) = Write_failed RuntimeError"
    unfolding processor2_def gate_def processor_def by code_simp
  show ?thesis
    using updated_regardless_of_write [OF processor_def gate_def g ts m] wr by simp
qed

section \<open>Batch pipeline: run statistics\<close>

lemma run_photos_invariant:
  fixes E :: "'w env"
  assumes "run_photos E opts tps tol ps (st, skipped, w) = (st', skipped', w')"
  shows "counted st' = counted st + length ps
       \<and> total st' = total st
       \<and> length skipped' + skipped_no_match st \<le> length skipped + skipped_no_match st'
       \<and> set skipped' \<subseteq> set skipped \<union>
           {(p, t). p \<in> set ps \<and> timestamp (hd tps) \<le> t \<and> t \<le> timestamp (last tps)
              \<and> find_gps_for_photo tps tol (opt_force_interpolate opts) t = None}"
  using assms
proof (induction ps arbitrary: st skipped w)
  case Nil
  then show ?case by simp
next
  case (Cons photo rest)
  obtain res written w1 where step:
    "process_single_photo E opts tps tol w photo = (res, written, w1)"
    by (cases "process_single_photo E opts tps tol w photo")
  define st1 where "st1 = st\<lparr>updated := updated st + updated res,
                skipped_has_gps := skipped_has_gps st + skipped_has_gps res,
                skipped_no_timestamp := skipped_no_timestamp st + skipped_no_timestamp res,
                skipped_no_match := skipped_no_match st + skipped_no_match res\<rparr>"
  define skipped1 where "skipped1 =
     (case in_range_no_match res of None \<Rightarrow> skipped | Some entry \<Rightarrow> skipped @ [entry])"
  have res: "fst (process_single_photo E opts tps tol w photo) = res" using step by simp
  have one: "counted st1 = counted st + 1
      \<and> total st1 = total st
      \<and> length skipped1 + skipped_no_match st \<le> length skipped + skipped_no_match st1
      \<and> set skipped1 \<subseteq> set skipped \<union>
           {(p, t). p = photo \<and> timestamp (hd tps) \<le> t \<and> t \<le> timestamp (last tps)
              \<and> find_gps_for_photo tps tol (opt_force_interpolate opts) t = None}"
  proof (cases rule: process_single_photo_cases [of E opts tps tol w photo])
    case has_gps
    then show ?thesis
      unfolding res by (simp add: st1_def skipped1_def counted_def empty_result_def)
  next
    case no_timestamp
    then show ?thesis
      unfolding res by (simp add: st1_def skipped1_def counted_def empty_result_def)
  next
    case (no_match t)
    then show ?thesis
      unfolding res by (auto simp: st1_def skipped1_def counted_def empty_result_def)
  next
    case updated
    then show ?thesis
      unfolding res by (simp add: st1_def skipped1_def counted_def empty_result_def)
  qed
  have run: "run_photos E opts tps tol rest (st1, skipped1, w1) = (st', skipped', w')"
    using Cons.prems by (simp add: step st1_def skipped1_def)
  show ?case using Cons.IH [OF run] one by auto
qed

text \<open>
  Claim C9. Every photo yields exactly one of the four outcome kinds, so in the summary
  of a run the four counts add up to the total, the number of discovered photos (for
  the thread pool: provided the completion order is a permutation of the photos). The
  in-range list has at most as many entries as there are unmatched photos, and each of
  its entries is a discovered photo with a capture time between the first and the last
  timestamp of the trace for which the matcher returned no match; a per-photo result
  carries such an entry only when it is \<open>skipped_no_match\<close>.
\<close>

theorem run_statistics_partition:
  fixes E :: "'w env"
  assumes "photos = find_photos (case_sensitive P) directory (opt_recursive opts)"
    and "mset (completion_order P photos) = mset photos"
    and "trackpoints = parse points"
    and "max_time_diff =
           (case opt_max_time_diff opts of
              None \<Rightarrow> max 60 (min (calculate_average_interval trackpoints * 3) 600)
            | Some m \<Rightarrow> m)"
    and "process_photos E P opts (Inr points) directory w = Inr (Summary st skipped, w')"
  shows "updated st + skipped_has_gps st + skipped_no_timestamp st + skipped_no_match st = total st
       \<and> total st = length photos
       \<and> length skipped \<le> skipped_no_match st
       \<and> (\<forall>(p, t) \<in> set skipped.
             p \<in> set photos
             \<and> timestamp (hd trackpoints) \<le> t \<and> t \<le> timestamp (last trackpoints)
             \<and> find_gps_for_photo trackpoints max_time_diff (opt_force_interpolate opts) t = None)
       \<and> (let r = fst (process_single_photo E opts trackpoints max_time_diff w0 photo0)
          in updated r + skipped_has_gps r + skipped_no_timestamp r + skipped_no_match r = 1
             \<and> (in_range_no_match r \<noteq> None \<longrightarrow> skipped_no_match r = 1))"
proof -
  define order where "order =
    (if effective_workers P (opt_workers opts) \<le> 1 then photos else completion_order P photos)"
  define st0 where "st0 =
    \<lparr>updated = 0, skipped_has_gps = 0, skipped_no_timestamp = 0, skipped_no_match = 0,
     total = length photos\<rparr>"
  have perm: "mset order = mset photos"
    using assms(2) by (simp add: order_def)
  have run: "run_photos E opts trackpoints max_time_diff order (st0, [], w) = (st, skipped, w')"
    using assms(5)
    unfolding process_photos_def Let_def assms(1,3,4) order_def st0_def
    by (simp split: if_splits prod.splits)
  note inv = run_photos_invariant [OF run]
  have len: "length order = length photos"
    using perm by (metis size_mset)
  have sets: "set order = set photos"
    using perm by (metis set_mset_mset)
  have c: "counted st = length photos"
    using inv len by (simp add: counted_def st0_def)
  have t: "total st = length photos"
    using inv by (simp add: st0_def)
  have l: "length skipped \<le> skipped_no_match st"
    using inv by (simp add: st0_def)
  have s: "\<forall>(p, t) \<in> set skipped.
             p \<in> set photos
             \<and> timestamp (hd trackpoints) \<le> t \<and> t \<le> timestamp (last trackpoints)
             \<and> find_gps_for_photo trackpoints max_time_diff (opt_force_interpolate opts) t = None"
    using inv sets by auto
  have one: "let r = fst (process_single_photo E opts trackpoints max_time_diff w0 photo0)
          in updated r + skipped_has_gps r + skipped_no_timestamp r + skipped_no_match r = 1
             \<and> (in_range_no_match r \<noteq> None \<longrightarrow> skipped_no_match r = 1)"
    by (cases rule: process_single_photo_cases [of E opts trackpoints max_time_diff w0 photo0])
       (simp_all add: empty_result_def Let_def)
  show ?thesis
    using c t l s one unfolding counted_def by simp
qed

theorem run_statistics_partition_witness:
  "\<exists>st skipped w'.
     process_photos (example_env 0) example_platform example_options (Inr example_track)
       example_directory example_disk = Inr (Summary st skipped, w')
     \<and> st = \<lparr>updated = 1, skipped_has_gps = 1, skipped_no_timestamp = 1, skipped_no_match = 1,
             total = 4\<rparr>
     \<and> skipped = [([''far.arw''], 1735788845000000)]
     \<and> updated st + skipped_has_gps st + skipped_no_timestamp st + skipped_no_match st = total st
     \<and> length skipped \<le> skipped_no_match st"
proof -
  define photos where "photos =
    find_photos (case_sensitive example_platform) example_directory (opt_recursive example_options)"
  have "map_sum id fst
      (process_photos (example_env 0) example_platform example_options (Inr example_track)
         example_directory example_disk)
    = Inr (Summary \<lparr>updated = 1, skipped_has_gps = 1, skipped_no_timestamp = 1,
                    skipped_no_match = 1, total = 4\<rparr> [([''far.arw''], 1735788845000000)])"
    by code_simp
  then obtain w' where run:
    "process_photos (example_env 0) example_platform example_options (Inr example_track)
       example_directory example_disk
     = Inr (Summary \<lparr>updated = 1, skipped_has_gps = 1, skipped_no_timestamp = 1,
                     skipped_no_match = 1, total = 4\<rparr> [([''far.arw''], 1735788845000000)], w')"
    by (cases "process_photos (example_env 0) example_platform example_options
          (Inr example_track) example_directory example_disk") auto
  have perm: "mset (completion_order example_platform photos) = mset photos"
    by (simp add: example_platform_def)
  show ?thesis
    using run_statistics_partition [OF photos_def perm refl refl run] run by blast
qed

end
